theory Spec2Isabelle
  imports Main "HOL-Library.Word"
begin

section \<open>JavaScript values and the device\<close>

text \<open>
  A JavaScript string is a sequence of UTF-16 code units. The empty string is the only
  falsy string, so \<open>!input\<close> is \<open>input = []\<close>.
\<close>

type_synonym jsstring = "16 word list"

datatype exn = SyntaxError | TransportError

text \<open>
  AsyncStorage keeps one text per key. The screens write only
  \<open>JSON.stringify\<close> of an array of strings, and read a text only through its truthiness
  and \<open>JSON.parse\<close>. A stored text is therefore kept as what these two operations see:
  the empty text (falsy), the text \<open>JSON.stringify\<close> writes for an array of strings
  (which \<open>JSON.parse\<close> reads back), or a non-empty text that \<open>JSON.parse\<close> rejects
  with a SyntaxError.
\<close>

datatype stored_text = Empty_text | Array_text "jsstring list" | Malformed_text

definition JSON_stringify :: "jsstring list \<Rightarrow> stored_text" where
  "JSON_stringify xs = Array_text xs"

fun JSON_parse :: "stored_text \<Rightarrow> exn + jsstring list" where
  "JSON_parse (Array_text xs) = Inr xs"
| "JSON_parse Empty_text = Inl SyntaxError"
| "JSON_parse Malformed_text = Inl SyntaxError"

text \<open>
  \<open>if (stored)\<close>: \<open>getItem\<close> gives \<open>null\<close> when the key is absent, which is falsy,
  and of the texts only the empty one is falsy.
\<close>

fun truthy :: "stored_text \<Rightarrow> bool" where
  "truthy Empty_text = False"
| "truthy (Array_text xs) = True"
| "truthy Malformed_text = True"

record DictionaryEntry =
  entry_id :: jsstring
  pada :: jsstring
  linga :: "jsstring option"
  vyakhya :: "jsstring option"
  sandarbha :: "jsstring option"
  marathi_artha :: "jsstring option"

text \<open>The lookup API: \<open>GET /word\<close> with the parameters \<open>word\<close> and \<open>filter\<close>.\<close>

record request =
  req_word :: jsstring
  req_filter :: "jsstring option"

record response_data =
  success :: bool
  results_field :: "DictionaryEntry list option"

datatype api_reply = Reply response_data | Failure

type_synonym api = "request \<Rightarrow> api_reply"

text \<open>Every setter call and every call that leaves the screen is logged, in order.\<close>

datatype event =
    Set_suggestions "DictionaryEntry list"
  | Set_isSearching bool
  | Set_history "jsstring list"
  | Set_selectedFilter "jsstring option"
  | Set_results "DictionaryEntry list"
  | Set_loading bool
  | Set_favorites "jsstring list"
  | Api_get request
  | Storage_setItem string stored_text
  | Console_error

record device =
  storage :: "string \<Rightarrow> stored_text option"
  events :: "event list"

definition emit :: "event \<Rightarrow> 'a device_scheme \<Rightarrow> 'a device_scheme" where
  "emit e st = st\<lparr>events := events st @ [e]\<rparr>"

definition AsyncStorage_getItem :: "string \<Rightarrow> 'a device_scheme \<Rightarrow> stored_text option" where
  "AsyncStorage_getItem key st = storage st key"

definition AsyncStorage_setItem :: "string \<Rightarrow> stored_text \<Rightarrow> 'a device_scheme \<Rightarrow> 'a device_scheme" where
  "AsyncStorage_setItem key text st =
     emit (Storage_setItem key text) (st\<lparr>storage := (storage st)(key \<mapsto> text)\<rparr>)"

definition console_error :: "'a device_scheme \<Rightarrow> 'a device_scheme" where
  "console_error st = emit Console_error st"

text \<open>
  A call either completes with the new state (\<open>Inr\<close>) or throws, leaving the state it had
  reached (\<open>Inl\<close>). For an async function, throwing is the rejection of its promise.
\<close>

type_synonym 's outcome = "exn \<times> 's + 's"

definition API_get :: "api \<Rightarrow> request \<Rightarrow> 'a device_scheme
    \<Rightarrow> exn \<times> 'a device_scheme + response_data \<times> 'a device_scheme" where
  "API_get server req st =
     (let st1 = emit (Api_get req) st
      in case server req of
           Failure \<Rightarrow> Inl (TransportError, st1)
         | Reply r \<Rightarrow> Inr (r, st1))"

text \<open>\<open>try { body } catch (error) { handler } finally { finalizer }\<close>\<close>

definition try_catch_finally ::
  "('s \<Rightarrow> 's outcome) \<Rightarrow> (exn \<Rightarrow> 's \<Rightarrow> 's outcome) \<Rightarrow> ('s \<Rightarrow> 's outcome) \<Rightarrow> 's \<Rightarrow> 's outcome" where
  "try_catch_finally body handler finalizer st =
     (case body st of
        Inr st1 \<Rightarrow> finalizer st1
      | Inl (e, st1) \<Rightarrow>
          (case handler e st1 of
             Inr st2 \<Rightarrow> finalizer st2
           | Inl (e2, st2) \<Rightarrow>
               (case finalizer st2 of
                  Inr st3 \<Rightarrow> Inl (e2, st3)
                | Inl thrown \<Rightarrow> Inl thrown)))"

text \<open>
  A call of an async function whose promise is neither awaited nor caught: the caller goes
  on whatever happens, with the state the call reached.
\<close>

fun not_awaited :: "'s outcome \<Rightarrow> 's" where
  "not_awaited (Inr st) = st"
| "not_awaited (Inl (e, st)) = st"

text \<open>\<open>x || undefined\<close> on an optional string, and \<open>x || []\<close> on an optional array.\<close>

fun or_undefined :: "jsstring option \<Rightarrow> jsstring option" where
  "or_undefined None = None"
| "or_undefined (Some s) = (if s = [] then None else Some s)"

fun or_empty :: "'a list option \<Rightarrow> 'a list" where
  "or_empty None = []"
| "or_empty (Some xs) = xs"

section \<open>The home screen (index.tsx)\<close>

text \<open>
  The \<open>useState\<close> values of \<open>HomeScreen\<close>. Within one render they are constants: a
  handler created by that render reads them from its closure, and a setter only changes
  what the next render sees. Every handler below therefore takes the render it was
  created in (\<open>c\<close>, read only) beside the state it updates (\<open>st\<close>).
\<close>

record home_state = device +
  word :: jsstring
  suggestions :: "DictionaryEntry list"
  history :: "jsstring list"
  selectedFilter :: "jsstring option"
  isSearching :: bool

definition home_initial :: "(string \<Rightarrow> stored_text option) \<Rightarrow> home_state" where
  "home_initial disk =
     \<lparr>storage = disk, events = [], word = [], suggestions = [], history = [],
      selectedFilter = None, isSearching = False\<rparr>"

definition setSuggestions :: "DictionaryEntry list \<Rightarrow> home_state \<Rightarrow> home_state" where
  "setSuggestions v st = emit (Set_suggestions v) (st\<lparr>suggestions := v\<rparr>)"

definition setHistory :: "jsstring list \<Rightarrow> home_state \<Rightarrow> home_state" where
  "setHistory v st = emit (Set_history v) (st\<lparr>history := v\<rparr>)"

definition setSelectedFilter :: "jsstring option \<Rightarrow> home_state \<Rightarrow> home_state" where
  "setSelectedFilter v st = emit (Set_selectedFilter v) (st\<lparr>selectedFilter := v\<rparr>)"

definition setIsSearching :: "bool \<Rightarrow> home_state \<Rightarrow> home_state" where
  "setIsSearching v st = emit (Set_isSearching v) (st\<lparr>isSearching := v\<rparr>)"

definition loadHistory :: "home_state \<Rightarrow> home_state outcome" where
  "loadHistory st =
     (case AsyncStorage_getItem ''searchHistory'' st of
        None \<Rightarrow> Inr st
      | Some stored \<Rightarrow>
          if truthy stored
          then (case JSON_parse stored of
                  Inl e \<Rightarrow> Inl (e, st)
                | Inr parsed \<Rightarrow> Inr (setHistory parsed st))
          else Inr st)"

definition saveToHistory :: "home_state \<Rightarrow> jsstring \<Rightarrow> home_state \<Rightarrow> home_state outcome" where
  "saveToHistory c term st =
     (let updated = take 5 (term # filter (\<lambda>item. item \<noteq> term) (history c));
          st1 = setHistory updated st
      in Inr (AsyncStorage_setItem ''searchHistory'' (JSON_stringify updated) st1))"

definition fetchSuggestions_try :: "api \<Rightarrow> home_state \<Rightarrow> jsstring \<Rightarrow> home_state \<Rightarrow> home_state outcome" where
  "fetchSuggestions_try server c input st =
     (case API_get server \<lparr>req_word = input, req_filter = or_undefined (selectedFilter c)\<rparr> st of
        Inl thrown \<Rightarrow> Inl thrown
      | Inr (response, st1) \<Rightarrow>
          if success response
          then Inr (setSuggestions (or_empty (results_field response)) st1)
          else Inr (setSuggestions [] st1))"

definition fetchSuggestions :: "api \<Rightarrow> home_state \<Rightarrow> jsstring \<Rightarrow> home_state \<Rightarrow> home_state outcome" where
  "fetchSuggestions server c input st =
     (if input = [] then Inr (setSuggestions [] st)
      else try_catch_finally
             (fetchSuggestions_try server c input)
             (\<lambda>error st1. Inr (setSuggestions [] (console_error st1)))
             (\<lambda>st1. Inr (setIsSearching False st1))
             (setIsSearching True st))"

definition toggleFilter :: "api \<Rightarrow> home_state \<Rightarrow> jsstring \<Rightarrow> home_state \<Rightarrow> home_state" where
  "toggleFilter server c filterName st =
     (let newFilter = (if selectedFilter c = Some filterName then None else Some filterName);
          st1 = setSelectedFilter newFilter st
      in if word c \<noteq> [] then not_awaited (fetchSuggestions server c (word c) st1) else st1)"

text \<open>
  Between two user actions React renders again, so a handler run by a user action is the
  one created from the current state.
\<close>

definition record_term :: "jsstring \<Rightarrow> home_state \<Rightarrow> home_state" where
  "record_term term st = not_awaited (saveToHistory st term st)"

definition record_all :: "jsstring list \<Rightarrow> home_state \<Rightarrow> home_state" where
  "record_all terms st = foldl (\<lambda>s term. record_term term s) st terms"

definition press_filter :: "api \<Rightarrow> jsstring \<Rightarrow> home_state \<Rightarrow> home_state" where
  "press_filter server filterName st = toggleFilter server st filterName st"

text \<open>The six terms of the history scenario, as code units.\<close>

definition deva_a :: jsstring where "deva_a = [0x0905]"
definition deva_ba :: jsstring where "deva_ba = [0x092C]"
definition deva_ka :: jsstring where "deva_ka = [0x0915]"
definition deva_dda :: jsstring where "deva_dda = [0x0921]"
definition deva_i :: jsstring where "deva_i = [0x0907]"
definition deva_pha :: jsstring where "deva_pha = [0x092B]"

text \<open>The history contract in the words of the specification.\<close>

definition record_spec :: "jsstring \<Rightarrow> jsstring list \<Rightarrow> jsstring list" where
  "record_spec term hist = take 5 (term # removeAll term hist)"

section \<open>The results screen (results.tsx)\<close>

text \<open>
  The navigation parameters \<open>word\<close> and \<open>filter\<close>: absent (\<open>undefined\<close>) or the
  string the home screen pushed.
\<close>

record route_params =
  param_word :: "jsstring option"
  param_filter :: "jsstring option"

record results_state = device +
  results :: "DictionaryEntry list"
  loading :: bool
  favorites :: "jsstring list"

definition results_initial :: "(string \<Rightarrow> stored_text option) \<Rightarrow> results_state" where
  "results_initial disk =
     \<lparr>storage = disk, events = [], results = [], loading = True, favorites = []\<rparr>"

definition setResults :: "DictionaryEntry list \<Rightarrow> results_state \<Rightarrow> results_state" where
  "setResults v st = emit (Set_results v) (st\<lparr>results := v\<rparr>)"

definition setLoading :: "bool \<Rightarrow> results_state \<Rightarrow> results_state" where
  "setLoading v st = emit (Set_loading v) (st\<lparr>loading := v\<rparr>)"

definition setFavorites :: "jsstring list \<Rightarrow> results_state \<Rightarrow> results_state" where
  "setFavorites v st = emit (Set_favorites v) (st\<lparr>favorites := v\<rparr>)"

definition fetchResults_try :: "api \<Rightarrow> route_params \<Rightarrow> jsstring \<Rightarrow> results_state \<Rightarrow> results_state outcome" where
  "fetchResults_try server p w st =
     (case API_get server \<lparr>req_word = w, req_filter = or_undefined (param_filter p)\<rparr> st of
        Inl thrown \<Rightarrow> Inl thrown
      | Inr (response, st1) \<Rightarrow>
          if success response
          then Inr (setResults (or_empty (results_field response)) st1)
          else Inr (setResults [] st1))"

definition fetchResults :: "api \<Rightarrow> route_params \<Rightarrow> results_state \<Rightarrow> results_state outcome" where
  "fetchResults server p st =
     (case param_word p of
        None \<Rightarrow> Inr st
      | Some w \<Rightarrow>
          if w = [] then Inr st
          else try_catch_finally
                 (fetchResults_try server p w)
                 (\<lambda>error st1. Inr (setResults [] (console_error st1)))
                 (\<lambda>st1. Inr (setLoading False st1))
                 (setLoading True st))"

definition loadFavorites :: "results_state \<Rightarrow> results_state outcome" where
  "loadFavorites st =
     (case AsyncStorage_getItem ''favorites'' st of
        None \<Rightarrow> Inr st
      | Some stored \<Rightarrow>
          if truthy stored
          then (case JSON_parse stored of
                  Inl e \<Rightarrow> Inl (e, st)
                | Inr parsed \<Rightarrow> Inr (setFavorites parsed st))
          else Inr st)"

definition toggleFavorite :: "results_state \<Rightarrow> jsstring \<Rightarrow> results_state \<Rightarrow> results_state outcome" where
  "toggleFavorite c term st =
     (let updated = (if term \<in> set (favorites c)
                     then filter (\<lambda>item. item \<noteq> term) (favorites c)
                     else favorites c @ [term]);
          st1 = setFavorites updated st
      in Inr (AsyncStorage_setItem ''favorites'' (JSON_stringify updated) st1))"

text \<open>
  The effect run at mount and whenever \<open>word\<close> or \<open>filter\<close> changes: it calls
  \<open>loadFavorites()\<close> and \<open>fetchResults()\<close> without awaiting either. The two touch
  different state, so the model runs one after the other.
\<close>

definition results_effect :: "api \<Rightarrow> route_params \<Rightarrow> results_state \<Rightarrow> results_state" where
  "results_effect server p st =
     not_awaited (fetchResults server p (not_awaited (loadFavorites st)))"

definition results_effects :: "api \<Rightarrow> route_params list \<Rightarrow> results_state \<Rightarrow> results_state" where
  "results_effects server ps st = foldl (\<lambda>s p. results_effect server p s) st ps"

definition press_favorite :: "jsstring \<Rightarrow> results_state \<Rightarrow> results_state" where
  "press_favorite term st = not_awaited (toggleFavorite st term st)"

fun is_api_get :: "event \<Rightarrow> bool" where
  "is_api_get (Api_get req) = True"
| "is_api_get e = False"

section \<open>Timers and debounce (index.tsx)\<close>

text \<open>
  The runtime's timer queue, with time in milliseconds. A timer is a handle, the time it
  is due and the arguments its callback \<open>() => func(...args)\<close> passes on. \<open>timeout\<close> is
  the variable the wrapped function closes over (\<open>undefined\<close> at first), and \<open>calls\<close>
  lists the arguments of each call of \<open>func\<close>, in order.
\<close>

record 'a runtime =
  clock :: nat
  timers :: "(nat \<times> nat \<times> 'a) list"
  next_handle :: nat
  timeout :: "nat option"
  calls :: "'a list"

definition runtime_initial :: "'a runtime" where
  "runtime_initial = \<lparr>clock = 0, timers = [], next_handle = 0, timeout = None, calls = []\<rparr>"

fun clearTimeout :: "nat option \<Rightarrow> 'a runtime \<Rightarrow> 'a runtime" where
  "clearTimeout None rt = rt"
| "clearTimeout (Some h) rt = rt\<lparr>timers := filter (\<lambda>(i, due, args). i \<noteq> h) (timers rt)\<rparr>"

definition setTimeout :: "'a \<Rightarrow> nat \<Rightarrow> 'a runtime \<Rightarrow> nat \<times> 'a runtime" where
  "setTimeout args delay rt =
     (next_handle rt,
      rt\<lparr>timers := timers rt @ [(next_handle rt, clock rt + delay, args)],
         next_handle := Suc (next_handle rt)\<rparr>)"

text \<open>One call of the function that \<open>debounce(func, delay)\<close> returns.\<close>

definition debounce :: "nat \<Rightarrow> 'a \<Rightarrow> 'a runtime \<Rightarrow> 'a runtime" where
  "debounce delay args rt =
     (let rt1 = clearTimeout (timeout rt) rt;
          (h, rt2) = setTimeout args delay rt1
      in rt2\<lparr>timeout := Some h\<rparr>)"

text \<open>
  Time passes until \<open>t\<close>: the timers due by then fire, earliest first (in the order they
  were set when due together), and leave the queue.
\<close>

definition elapse :: "nat \<Rightarrow> 'a runtime \<Rightarrow> 'a runtime" where
  "elapse t rt =
     (let fired = sort_key (\<lambda>(i, due, args). due) (filter (\<lambda>(i, due, args). due \<le> t) (timers rt))
      in rt\<lparr>clock := max (clock rt) t,
            timers := filter (\<lambda>(i, due, args). \<not> due \<le> t) (timers rt),
            calls := calls rt @ map (\<lambda>(i, due, args). args) fired\<rparr>)"

text \<open>Calls of the wrapped function at the given times, one after the other.\<close>

fun trigger_all :: "nat \<Rightarrow> (nat \<times> 'a) list \<Rightarrow> 'a runtime \<Rightarrow> 'a runtime" where
  "trigger_all delay [] rt = rt"
| "trigger_all delay ((t, args) # rest) rt =
     trigger_all delay rest (debounce delay args (elapse t rt))"

text \<open>Each call comes less than \<open>delay\<close> after the one before it.\<close>

fun rapid :: "nat \<Rightarrow> nat \<Rightarrow> (nat \<times> 'a) list \<Rightarrow> bool" where
  "rapid delay prev [] = True"
| "rapid delay prev ((t, args) # rest) = (prev \<le> t \<and> t < prev + delay \<and> rapid delay t rest)"

text \<open>
  The state between rapid calls: the last call was made at \<open>t\<close> with \<open>a\<close>, its timer is
  the only one in the queue and \<open>timeout\<close> holds its handle, and \<open>func\<close> has not run.
\<close>

definition pending :: "nat \<Rightarrow> nat \<Rightarrow> 'a \<Rightarrow> 'a runtime \<Rightarrow> bool" where
  "pending delay t a rt =
     (clock rt = t \<and> calls rt = [] \<and>
      (case timeout rt of None \<Rightarrow> False | Some h \<Rightarrow> timers rt = [(h, t + delay, a)]))"

section \<open>Inputs used in the examples\<close>

definition deva_pada :: jsstring where "deva_pada = [0x092A, 0x0926]"
definition deva_vyakhya :: jsstring where "deva_vyakhya = [0x0935, 0x094D, 0x092F, 0x093E, 0x0916, 0x094D, 0x092F, 0x093E]"

definition no_disk :: "string \<Rightarrow> stored_text option" where
  "no_disk = Map.empty"

definition corrupt_disk :: "string \<Rightarrow> stored_text option" where
  "corrupt_disk = [''searchHistory'' \<mapsto> Malformed_text, ''favorites'' \<mapsto> Malformed_text]"

definition server_down :: api where
  "server_down = (\<lambda>req. Failure)"

definition server_refuses :: api where
  "server_refuses = (\<lambda>req. Reply \<lparr>success = False, results_field = None\<rparr>)"

definition typed_a :: home_state where
  "typed_a = (home_initial no_disk)\<lparr>word := deva_a\<rparr>"

definition throws :: "'s outcome \<Rightarrow> bool" where
  "throws r = isl r"

definition two_favorites :: results_state where
  "two_favorites = (results_initial no_disk)\<lparr>favorites := [deva_a, deva_ba]\<rparr>"

definition saved_disk :: "string \<Rightarrow> stored_text option" where
  "saved_disk = [''searchHistory'' \<mapsto> JSON_stringify [deva_ba, deva_a],
                 ''favorites'' \<mapsto> JSON_stringify [deva_ba, deva_a]]"


section \<open>Unfolding rules and facts shared by the proofs\<close>

lemmas home_setters = setSuggestions_def setHistory_def setSelectedFilter_def setIsSearching_def
  emit_def console_error_def AsyncStorage_setItem_def AsyncStorage_getItem_def

lemmas results_setters = setResults_def setLoading_def setFavorites_def
  emit_def console_error_def AsyncStorage_setItem_def AsyncStorage_getItem_def

lemmas fetchSuggestions_unfold = fetchSuggestions_def fetchSuggestions_try_def
  try_catch_finally_def API_get_def Let_def throws_def

lemmas fetchResults_unfold = fetchResults_def fetchResults_try_def
  try_catch_finally_def API_get_def Let_def throws_def

lemmas deva_letters = deva_a_def deva_ba_def deva_ka_def deva_dda_def deva_i_def deva_pha_def
  deva_pada_def deva_vyakhya_def

subsection \<open>History\<close>

lemma filter_neq_removeAll: "filter (\<lambda>item. item \<noteq> t) xs = removeAll t xs"
  by (induction xs) auto

lemma history_record_term:
  "history (record_term t st) = take 5 (t # filter (\<lambda>item. item \<noteq> t) (history st))"
  by (simp add: record_term_def saveToHistory_def home_setters Let_def)

lemma storage_record_term:
  "storage (record_term t st) ''searchHistory'' =
     Some (JSON_stringify (take 5 (t # filter (\<lambda>item. item \<noteq> t) (history st))))"
  by (simp add: record_term_def saveToHistory_def home_setters Let_def)

lemma record_step_distinct:
  "distinct h \<Longrightarrow> distinct (take 5 (t # filter (\<lambda>item. item \<noteq> t) h))"
  by (rule distinct_take) simp

lemma record_all_invariant:
  "distinct (history st) \<Longrightarrow> length (history st) \<le> 5 \<Longrightarrow>
   distinct (history (record_all ts st)) \<and> length (history (record_all ts st)) \<le> 5"
proof (induction ts arbitrary: st)
  case Nil
  then show ?case by (simp add: record_all_def)
next
  case (Cons t ts)
  have "distinct (history (record_term t st))"
    using Cons.prems(1) by (simp only: history_record_term record_step_distinct)
  moreover have "length (history (record_term t st)) \<le> 5"
    by (simp add: history_record_term)
  ultimately show ?case
    using Cons.IH [of "record_term t st"] by (simp add: record_all_def)
qed

subsection \<open>The two fetch operations\<close>

lemma fetchSuggestions_completes: "\<not> throws (fetchSuggestions server c input st)"
  by (cases "server \<lparr>req_word = input, req_filter = or_undefined (selectedFilter c)\<rparr>")
     (simp_all add: fetchSuggestions_unfold)

lemma fetchSuggestions_events:
  "input \<noteq> [] \<Longrightarrow>
   server \<lparr>req_word = input, req_filter = or_undefined (selectedFilter c)\<rparr> = rep \<Longrightarrow>
   events (not_awaited (fetchSuggestions server c input st)) =
     events st
       @ [Set_isSearching True,
          Api_get \<lparr>req_word = input, req_filter = or_undefined (selectedFilter c)\<rparr>]
       @ (case rep of
            Failure \<Rightarrow> [Console_error, Set_suggestions []]
          | Reply r \<Rightarrow> [Set_suggestions (if success r then or_empty (results_field r) else [])])
       @ [Set_isSearching False]"
  by (cases rep) (simp_all add: fetchSuggestions_unfold home_setters)

lemma fetchSuggestions_fields:
  "input \<noteq> [] \<Longrightarrow>
   server \<lparr>req_word = input, req_filter = or_undefined (selectedFilter c)\<rparr> = rep \<Longrightarrow>
   isSearching (not_awaited (fetchSuggestions server c input st)) = False \<and>
   suggestions (not_awaited (fetchSuggestions server c input st)) =
     (case rep of
        Failure \<Rightarrow> []
      | Reply r \<Rightarrow> if success r then or_empty (results_field r) else [])"
  by (cases rep) (simp_all add: fetchSuggestions_unfold home_setters)

lemma fetchSuggestions_selectedFilter:
  "selectedFilter (not_awaited (fetchSuggestions server c input st)) = selectedFilter st"
  by (cases "server \<lparr>req_word = input, req_filter = or_undefined (selectedFilter c)\<rparr>")
     (simp_all add: fetchSuggestions_unfold home_setters)

lemma fetchResults_completes: "\<not> throws (fetchResults server p st)"
  by (cases "param_word p";
      cases "server \<lparr>req_word = the (param_word p), req_filter = or_undefined (param_filter p)\<rparr>")
     (simp_all add: fetchResults_unfold)

lemma fetchResults_events:
  "param_word p = Some w \<Longrightarrow> w \<noteq> [] \<Longrightarrow>
   server \<lparr>req_word = w, req_filter = or_undefined (param_filter p)\<rparr> = rep \<Longrightarrow>
   events (not_awaited (fetchResults server p st)) =
     events st
       @ [Set_loading True, Api_get \<lparr>req_word = w, req_filter = or_undefined (param_filter p)\<rparr>]
       @ (case rep of
            Failure \<Rightarrow> [Console_error, Set_results []]
          | Reply r \<Rightarrow> [Set_results (if success r then or_empty (results_field r) else [])])
       @ [Set_loading False]"
  by (cases rep) (simp_all add: fetchResults_unfold results_setters)

lemma fetchResults_fields:
  "param_word p = Some w \<Longrightarrow> w \<noteq> [] \<Longrightarrow>
   server \<lparr>req_word = w, req_filter = or_undefined (param_filter p)\<rparr> = rep \<Longrightarrow>
   loading (not_awaited (fetchResults server p st)) = False \<and>
   results (not_awaited (fetchResults server p st)) =
     (case rep of
        Failure \<Rightarrow> []
      | Reply r \<Rightarrow> if success r then or_empty (results_field r) else [])"
  by (cases rep) (simp_all add: fetchResults_unfold results_setters)

lemma fetchResults_no_word:
  "param_word p = None \<or> param_word p = Some [] \<Longrightarrow> fetchResults server p st = Inr st"
  by (auto simp: fetchResults_def)

lemma loadFavorites_keeps:
  "loading (not_awaited (loadFavorites st)) = loading st \<and>
   results (not_awaited (loadFavorites st)) = results st \<and>
   filter is_api_get (events (not_awaited (loadFavorites st))) = filter is_api_get (events st)"
proof (cases "storage st ''favorites''")
  case None
  then show ?thesis by (simp add: loadFavorites_def AsyncStorage_getItem_def)
next
  case (Some stored)
  then show ?thesis
    by (cases stored) (simp_all add: loadFavorites_def results_setters)
qed

lemma results_effects_no_word:
  "\<forall>p \<in> set ps. param_word p = None \<or> param_word p = Some [] \<Longrightarrow>
   loading (results_effects server ps st) = loading st \<and>
   results (results_effects server ps st) = results st \<and>
   filter is_api_get (events (results_effects server ps st)) = filter is_api_get (events st)"
proof (induction ps arbitrary: st)
  case Nil
  then show ?case by (simp add: results_effects_def)
next
  case (Cons p ps)
  from Cons.prems have p: "param_word p = None \<or> param_word p = Some []" by simp
  have step: "results_effect server p st = not_awaited (loadFavorites st)"
    by (simp add: results_effect_def fetchResults_no_word [OF p])
  from Cons.prems have "\<forall>q \<in> set ps. param_word q = None \<or> param_word q = Some []" by simp
  from Cons.IH [OF this, of "results_effect server p st"] show ?case
    by (simp add: results_effects_def step loadFavorites_keeps)
qed

subsection \<open>Favorites\<close>

lemma favorites_press_favorite:
  "favorites (press_favorite t st) =
     (if t \<in> set (favorites st) then filter (\<lambda>item. item \<noteq> t) (favorites st)
      else favorites st @ [t])"
  by (simp add: press_favorite_def toggleFavorite_def results_setters Let_def)

lemma storage_press_favorite:
  "storage (press_favorite t st) ''favorites'' = Some (JSON_stringify (favorites (press_favorite t st)))"
  by (simp add: press_favorite_def toggleFavorite_def results_setters Let_def)

subsection \<open>Filter selection\<close>

lemma selectedFilter_press_filter:
  "selectedFilter (press_filter server tag st) =
     (if selectedFilter st = Some tag then None else Some tag)"
  by (simp add: press_filter_def toggleFilter_def Let_def fetchSuggestions_selectedFilter
      setSelectedFilter_def emit_def)

subsection \<open>Debounce\<close>

lemma pending_first: "pending delay t a (debounce delay a (elapse t runtime_initial))"
  by (simp add: pending_def debounce_def elapse_def setTimeout_def runtime_initial_def)

lemma pending_step:
  assumes "pending delay t a rt" and "t \<le> t'" and "t' < t + delay"
  shows "pending delay t' a' (debounce delay a' (elapse t' rt))"
  using assms
  by (auto simp: pending_def debounce_def elapse_def setTimeout_def Let_def split: option.splits)

lemma pending_trigger_all:
  "pending delay t a rt \<Longrightarrow> rapid delay t rest \<Longrightarrow>
   pending delay (fst (last ((t, a) # rest))) (snd (last ((t, a) # rest)))
     (trigger_all delay rest rt)"
proof (induction rest arbitrary: t a rt)
  case Nil
  then show ?case by simp
next
  case (Cons c rest)
  obtain t' a' where c: "c = (t', a')" by (cases c)
  from Cons.prems c have "pending delay t' a' (debounce delay a' (elapse t' rt))"
    by (auto intro: pending_step)
  moreover from Cons.prems c have "rapid delay t' rest" by simp
  ultimately show ?case
    using Cons.IH [of t' a' "debounce delay a' (elapse t' rt)"] c by simp
qed

lemma pending_now: "pending delay t a rt \<Longrightarrow> calls rt = [] \<and> map snd (timers rt) = [(t + delay, a)]"
  by (auto simp: pending_def split: option.splits)

lemma pending_elapse_calls:
  "pending delay t a rt \<Longrightarrow> calls (elapse T rt) = (if t + delay \<le> T then [a] else [])"
  by (auto simp: pending_def elapse_def split: option.splits)

lemma pending_elapse_timers:
  "pending delay t a rt \<Longrightarrow>
   map snd (timers (elapse T rt)) = (if t + delay \<le> T then [] else [(t + delay, a)])"
  by (auto simp: pending_def elapse_def split: option.splits)

section \<open>The claims\<close>

text \<open>
  C1. The function returned by \<open>debounce(handler, 500)\<close> is called at \<open>t0\<close> and then at
  the times of \<open>rest\<close>, each call less than 500 ms after the one before. Then the handler
  has not run when the last call returns, the queue holds the timer of the last call and
  no other (the earlier ones were cleared), and whatever time passes afterwards the
  handler runs exactly once, with the arguments of the last call, 500 ms after it, and no
  timer is left.
\<close>

theorem debounce_runs_last_call_once:
  assumes "rapid 500 t0 rest"
  shows "calls (trigger_all 500 ((t0, a0) # rest) runtime_initial) = [] \<and>
         map snd (timers (trigger_all 500 ((t0, a0) # rest) runtime_initial)) =
           [(fst (last ((t0, a0) # rest)) + 500, snd (last ((t0, a0) # rest)))] \<and>
         (\<forall>T. calls (elapse T (trigger_all 500 ((t0, a0) # rest) runtime_initial)) =
           (if fst (last ((t0, a0) # rest)) + 500 \<le> T then [snd (last ((t0, a0) # rest))] else [])) \<and>
         (\<forall>T. map snd (timers (elapse T (trigger_all 500 ((t0, a0) # rest) runtime_initial))) =
           (if fst (last ((t0, a0) # rest)) + 500 \<le> T then []
            else [(fst (last ((t0, a0) # rest)) + 500, snd (last ((t0, a0) # rest)))]))"
proof -
  have "pending 500 (fst (last ((t0, a0) # rest))) (snd (last ((t0, a0) # rest)))
          (trigger_all 500 rest (debounce 500 a0 (elapse t0 runtime_initial)))"
    using pending_first assms by (rule pending_trigger_all)
  then have p: "pending 500 (fst (last ((t0, a0) # rest))) (snd (last ((t0, a0) # rest)))
          (trigger_all 500 ((t0, a0) # rest) runtime_initial)"
    by simp
  show ?thesis
    using pending_now [OF p] pending_elapse_calls [OF p] pending_elapse_timers [OF p]
    by blast
qed

text \<open>
  Three keystrokes at 0, 100 and 599 ms: at 1098 ms nothing has run, at 1099 ms the
  handler has run once, with the last text.
\<close>

theorem debounce_runs_last_call_once_witness:
  "rapid 500 0 [(100, deva_ba), (599, deva_ka)] \<and>
   calls (elapse 1098 (trigger_all 500 [(0, deva_a), (100, deva_ba), (599, deva_ka)] runtime_initial)) = [] \<and>
   calls (elapse 1099 (trigger_all 500 [(0, deva_a), (100, deva_ba), (599, deva_ka)] runtime_initial)) = [deva_ka] \<and>
   map snd (timers (elapse 1099 (trigger_all 500 [(0, deva_a), (100, deva_ba), (599, deva_ka)] runtime_initial))) = []"
proof -
  have r: "rapid 500 0 [(100, deva_ba), (599, deva_ka)]" by simp
  show ?thesis
    using r debounce_runs_last_call_once [OF r, of deva_a] by simp
qed

text \<open>
  C2. \<open>saveToHistory(term)\<close> sets the history to the list the specification describes
  (prior occurrences of the term removed, the term put in front, the first five kept),
  writes that list under the key \<open>searchHistory\<close>, and does not throw. Recording the six
  terms of the scenario from an empty history leaves the last five, most recent first,
  in the state and in the storage.
\<close>

theorem saveToHistory_records_term:
  "\<not> throws (saveToHistory st t st) \<and>
   history (record_term t st) = record_spec t (history st) \<and>
   AsyncStorage_getItem ''searchHistory'' (record_term t st) =
     Some (JSON_stringify (record_spec t (history st))) \<and>
   history (record_all [deva_a, deva_ba, deva_ka, deva_dda, deva_i, deva_pha] (home_initial disk)) =
     [deva_pha, deva_i, deva_dda, deva_ka, deva_ba] \<and>
   AsyncStorage_getItem ''searchHistory''
       (record_all [deva_a, deva_ba, deva_ka, deva_dda, deva_i, deva_pha] (home_initial disk)) =
     Some (JSON_stringify [deva_pha, deva_i, deva_dda, deva_ka, deva_ba])"
proof -
  have "\<not> throws (saveToHistory st t st)"
    by (simp add: saveToHistory_def throws_def Let_def)
  moreover have "history (record_term t st) = record_spec t (history st)"
    by (simp add: history_record_term record_spec_def filter_neq_removeAll)
  moreover have "AsyncStorage_getItem ''searchHistory'' (record_term t st) =
      Some (JSON_stringify (record_spec t (history st)))"
    by (simp add: AsyncStorage_getItem_def storage_record_term record_spec_def filter_neq_removeAll)
  moreover have "history (record_all [deva_a, deva_ba, deva_ka, deva_dda, deva_i, deva_pha] (home_initial disk)) =
      [deva_pha, deva_i, deva_dda, deva_ka, deva_ba]"
    by (simp add: record_all_def history_record_term home_initial_def deva_letters)
  moreover have "AsyncStorage_getItem ''searchHistory''
        (record_all [deva_a, deva_ba, deva_ka, deva_dda, deva_i, deva_pha] (home_initial disk)) =
      Some (JSON_stringify [deva_pha, deva_i, deva_dda, deva_ka, deva_ba])"
    by (simp add: record_all_def AsyncStorage_getItem_def storage_record_term history_record_term
        home_initial_def deva_letters)
  ultimately show ?thesis by blast
qed

text \<open>
  C3. For a non-empty term, \<open>fetchSuggestions\<close> and \<open>fetchResults\<close> do not throw; each
  sets its in-progress flag, then calls the API, then sets its list, and clears the flag
  last (after \<open>console.error\<close> and the empty list when the request threw), so the flag is
  false at the end in every case; and the list is empty when the request throws and when
  the response has \<open>success: false\<close>.
\<close>

theorem fetch_flag_and_failure:
  assumes "input \<noteq> []" and "param_word p = Some w" and "w \<noteq> []"
  shows "\<not> throws (fetchSuggestions server c input st) \<and>
         isSearching (not_awaited (fetchSuggestions server c input st)) = False \<and>
         events (not_awaited (fetchSuggestions server c input st)) =
           events st
             @ [Set_isSearching True,
                Api_get \<lparr>req_word = input, req_filter = or_undefined (selectedFilter c)\<rparr>]
             @ (case server \<lparr>req_word = input, req_filter = or_undefined (selectedFilter c)\<rparr> of
                  Failure \<Rightarrow> [Console_error, Set_suggestions []]
                | Reply r \<Rightarrow> [Set_suggestions (if success r then or_empty (results_field r) else [])])
             @ [Set_isSearching False] \<and>
         (server \<lparr>req_word = input, req_filter = or_undefined (selectedFilter c)\<rparr> = Failure \<longrightarrow>
            suggestions (not_awaited (fetchSuggestions server c input st)) = []) \<and>
         (\<forall>r. server \<lparr>req_word = input, req_filter = or_undefined (selectedFilter c)\<rparr> = Reply r \<and> \<not> success r \<longrightarrow>
            suggestions (not_awaited (fetchSuggestions server c input st)) = []) \<and>
         \<not> throws (fetchResults server p rs) \<and>
         loading (not_awaited (fetchResults server p rs)) = False \<and>
         events (not_awaited (fetchResults server p rs)) =
           events rs
             @ [Set_loading True,
                Api_get \<lparr>req_word = w, req_filter = or_undefined (param_filter p)\<rparr>]
             @ (case server \<lparr>req_word = w, req_filter = or_undefined (param_filter p)\<rparr> of
                  Failure \<Rightarrow> [Console_error, Set_results []]
                | Reply r \<Rightarrow> [Set_results (if success r then or_empty (results_field r) else [])])
             @ [Set_loading False] \<and>
         (server \<lparr>req_word = w, req_filter = or_undefined (param_filter p)\<rparr> = Failure \<longrightarrow>
            results (not_awaited (fetchResults server p rs)) = []) \<and>
         (\<forall>r. server \<lparr>req_word = w, req_filter = or_undefined (param_filter p)\<rparr> = Reply r \<and> \<not> success r \<longrightarrow>
            results (not_awaited (fetchResults server p rs)) = [])"
proof -
  note s = fetchSuggestions_fields [OF assms(1) refl, of server c st]
  note r = fetchResults_fields [OF assms(2) assms(3) refl, of server rs]
  have "suggestions (not_awaited (fetchSuggestions server c input st)) = []"
    if "server \<lparr>req_word = input, req_filter = or_undefined (selectedFilter c)\<rparr> = Failure"
    using s that by simp
  moreover have "suggestions (not_awaited (fetchSuggestions server c input st)) = []"
    if "server \<lparr>req_word = input, req_filter = or_undefined (selectedFilter c)\<rparr> = Reply x \<and> \<not> success x" for x
    using s that by simp
  moreover have "results (not_awaited (fetchResults server p rs)) = []"
    if "server \<lparr>req_word = w, req_filter = or_undefined (param_filter p)\<rparr> = Failure"
    using r that by simp
  moreover have "results (not_awaited (fetchResults server p rs)) = []"
    if "server \<lparr>req_word = w, req_filter = or_undefined (param_filter p)\<rparr> = Reply x \<and> \<not> success x" for x
    using r that by simp
  ultimately show ?thesis
    using s r fetchSuggestions_completes [of server c input st] fetchResults_completes [of server p rs]
      fetchSuggestions_events [OF assms(1) refl, of server c st]
      fetchResults_events [OF assms(2) assms(3) refl, of server rs]
    by blast
qed

text \<open>
  The home screen with the term \<open>deva_a\<close> and the results screen opened on it, first
  against a server that cannot be reached, then against one that answers
  \<open>success: false\<close>.
\<close>

theorem fetch_flag_and_failure_witness:
  "deva_a \<noteq> [] \<and>
   param_word \<lparr>param_word = Some deva_a, param_filter = None\<rparr> = Some deva_a \<and>
   server_down \<lparr>req_word = deva_a, req_filter = None\<rparr> = Failure \<and>
   \<not> throws (fetchSuggestions server_down typed_a deva_a typed_a) \<and>
   isSearching (not_awaited (fetchSuggestions server_down typed_a deva_a typed_a)) = False \<and>
   suggestions (not_awaited (fetchSuggestions server_down typed_a deva_a typed_a)) = [] \<and>
   events (not_awaited (fetchSuggestions server_down typed_a deva_a typed_a)) =
     [Set_isSearching True, Api_get \<lparr>req_word = deva_a, req_filter = None\<rparr>,
      Console_error, Set_suggestions [], Set_isSearching False] \<and>
   \<not> throws (fetchResults server_down \<lparr>param_word = Some deva_a, param_filter = None\<rparr>
               (results_initial no_disk)) \<and>
   loading (not_awaited (fetchResults server_down \<lparr>param_word = Some deva_a, param_filter = None\<rparr>
               (results_initial no_disk))) = False \<and>
   results (not_awaited (fetchResults server_down \<lparr>param_word = Some deva_a, param_filter = None\<rparr>
               (results_initial no_disk))) = [] \<and>
   server_refuses \<lparr>req_word = deva_a, req_filter = None\<rparr> =
     Reply \<lparr>success = False, results_field = None\<rparr> \<and>
   suggestions (not_awaited (fetchSuggestions server_refuses typed_a deva_a typed_a)) = [] \<and>
   events (not_awaited (fetchSuggestions server_refuses typed_a deva_a typed_a)) =
     [Set_isSearching True, Api_get \<lparr>req_word = deva_a, req_filter = None\<rparr>,
      Set_suggestions [], Set_isSearching False] \<and>
   results (not_awaited (fetchResults server_refuses \<lparr>param_word = Some deva_a, param_filter = None\<rparr>
               (results_initial no_disk))) = []"
proof -
  have a: "deva_a \<noteq> []" by (simp add: deva_a_def)
  have w: "param_word \<lparr>param_word = Some deva_a, param_filter = None\<rparr> = Some deva_a" by simp
  have f: "selectedFilter typed_a = None" "events typed_a = []" "events (results_initial no_disk) = []"
    by (simp_all add: typed_a_def home_initial_def results_initial_def)
  show ?thesis
    using a w
      fetch_flag_and_failure [OF a w a, of server_down typed_a typed_a "results_initial no_disk"]
      fetch_flag_and_failure [OF a w a, of server_refuses typed_a typed_a "results_initial no_disk"]
    by (simp add: f server_down_def server_refuses_def)
qed

text \<open>
  C4. Whatever terms are recorded, in whatever order, starting from the empty history of
  a freshly mounted home screen, the history has at most five entries and no term twice.
\<close>

theorem history_bounded_and_distinct:
  "length (history (record_all ts (home_initial disk))) \<le> 5 \<and>
   distinct (history (record_all ts (home_initial disk)))"
  using record_all_invariant [of "home_initial disk" ts] by (simp add: home_initial_def)

text \<open>
  C5. The text \<open>deva_a\<close> is in the search box and no filter is selected; the filter
  \<open>deva_pada\<close> is pressed. \<open>toggleFilter\<close> does call \<open>fetchSuggestions\<close> itself, with
  no timer, and the filter becomes \<open>deva_pada\<close>; but \<open>fetchSuggestions\<close> reads
  \<open>selectedFilter\<close> of the render the handler was created in, so the one request sent
  carries the filter as it was before the press (none).
\<close>

theorem toggleFilter_fetches_with_previous_filter:
  "selectedFilter (press_filter server deva_pada typed_a) = Some deva_pada \<and>
   filter is_api_get (events (press_filter server deva_pada typed_a)) =
     [Api_get \<lparr>req_word = deva_a, req_filter = None\<rparr>]"
proof -
  have w: "word typed_a = deva_a" "deva_a \<noteq> []" "selectedFilter typed_a = None"
    by (simp_all add: typed_a_def home_initial_def deva_a_def)
  have "events (press_filter server deva_pada typed_a) =
      [Set_selectedFilter (Some deva_pada), Set_isSearching True,
       Api_get \<lparr>req_word = deva_a, req_filter = None\<rparr>]
      @ (case server \<lparr>req_word = deva_a, req_filter = None\<rparr> of
           Failure \<Rightarrow> [Console_error, Set_suggestions []]
         | Reply r \<Rightarrow> [Set_suggestions (if success r then or_empty (results_field r) else [])])
      @ [Set_isSearching False]"
    using fetchSuggestions_events [OF w(2) refl, of server typed_a]
    by (simp add: press_filter_def toggleFilter_def Let_def w setSelectedFilter_def emit_def
        typed_a_def home_initial_def)
  then have "filter is_api_get (events (press_filter server deva_pada typed_a)) =
      [Api_get \<lparr>req_word = deva_a, req_filter = None\<rparr>]"
    by (cases "server \<lparr>req_word = deva_a, req_filter = None\<rparr>") simp_all
  then show ?thesis
    by (simp add: selectedFilter_press_filter w)
qed

text \<open>
  C6. When no term is twice among the favorites, pressing the heart of \<open>t\<close> twice gives
  back the membership there was: every term, \<open>t\<close> included, is a favorite afterwards
  exactly when it was one before, no term is there twice, and the storage holds the
  list. (A \<open>t\<close> that was a favorite comes back at the end of the list.)
\<close>

theorem toggleFavorite_twice_restores_membership:
  assumes "distinct (favorites st)"
  shows "(\<forall>u. (u \<in> set (favorites (press_favorite t (press_favorite t st)))) = (u \<in> set (favorites st))) \<and>
         distinct (favorites (press_favorite t (press_favorite t st))) \<and>
         AsyncStorage_getItem ''favorites'' (press_favorite t (press_favorite t st)) =
           Some (JSON_stringify (favorites (press_favorite t (press_favorite t st))))"
proof (cases "t \<in> set (favorites st)")
  case True
  then have "favorites (press_favorite t (press_favorite t st)) =
      filter (\<lambda>item. item \<noteq> t) (favorites st) @ [t]"
    by (simp add: favorites_press_favorite)
  with True assms show ?thesis
    by (auto simp: AsyncStorage_getItem_def storage_press_favorite)
next
  case False
  then have "favorites (press_favorite t (press_favorite t st)) = favorites st"
    by (auto simp: favorites_press_favorite filter_id_conv)
  with assms show ?thesis
    by (simp add: AsyncStorage_getItem_def storage_press_favorite)
qed

text \<open>Two favorites, and the first of them pressed twice: it moves to the end.\<close>

theorem toggleFavorite_twice_restores_membership_witness:
  "distinct (favorites two_favorites) \<and>
   favorites (press_favorite deva_a two_favorites) = [deva_ba] \<and>
   set (favorites (press_favorite deva_a (press_favorite deva_a two_favorites))) = {deva_a, deva_ba} \<and>
   set (favorites two_favorites) = {deva_a, deva_ba} \<and>
   distinct (favorites (press_favorite deva_a (press_favorite deva_a two_favorites)))"
proof -
  have d: "distinct (favorites two_favorites)"
    by (simp add: two_favorites_def deva_letters)
  have "set (favorites (press_favorite deva_a (press_favorite deva_a two_favorites))) =
      set (favorites two_favorites)"
    using toggleFavorite_twice_restores_membership [OF d, of deva_a] by blast
  moreover have "set (favorites two_favorites) = {deva_a, deva_ba}"
    by (simp add: two_favorites_def)
  moreover have "favorites (press_favorite deva_a two_favorites) = [deva_ba]"
    by (simp add: favorites_press_favorite two_favorites_def deva_letters)
  ultimately show ?thesis
    using d toggleFavorite_twice_restores_membership [OF d, of deva_a] by simp
qed

text \<open>
  C7. \<open>toggleFilter(tag)\<close> clears the filter when \<open>tag\<close> is the active one and makes
  \<open>tag\<close> the filter otherwise (none active, or another one). The state holds one
  optional tag, so two filters are never active together. Selecting a tag that is not
  active and pressing it again leaves no filter; pressing \<open>a\<close> and then another tag
  \<open>b\<close> leaves \<open>b\<close>.
\<close>

theorem toggleFilter_zero_or_one:
  "selectedFilter (press_filter server tag st) =
     (if selectedFilter st = Some tag then None else Some tag) \<and>
   (selectedFilter st \<noteq> Some a \<longrightarrow>
      selectedFilter (press_filter server2 a (press_filter server a st)) = None) \<and>
   (a \<noteq> b \<longrightarrow>
      selectedFilter (press_filter server2 b (press_filter server a st)) = Some b)"
  by (simp add: selectedFilter_press_filter)

theorem toggleFilter_zero_or_one_witness:
  "selectedFilter (home_initial no_disk) \<noteq> Some deva_pada \<and>
   selectedFilter (press_filter server_down deva_pada (home_initial no_disk)) = Some deva_pada \<and>
   selectedFilter (press_filter server_down deva_pada
      (press_filter server_down deva_pada (home_initial no_disk))) = None \<and>
   deva_pada \<noteq> deva_vyakhya \<and>
   selectedFilter (press_filter server_down deva_vyakhya
      (press_filter server_down deva_pada (home_initial no_disk))) = Some deva_vyakhya"
proof -
  have n: "selectedFilter (home_initial no_disk) \<noteq> Some deva_pada"
    by (simp add: home_initial_def)
  have d: "deva_pada \<noteq> deva_vyakhya"
    by (simp add: deva_letters)
  show ?thesis
    using n d
      toggleFilter_zero_or_one [of server_down deva_pada "home_initial no_disk" deva_pada server_down deva_vyakhya]
      toggleFilter_zero_or_one [of server_down deva_pada "home_initial no_disk" deva_pada server_down deva_pada]
    by simp
qed

text \<open>
  C8, as the specification states it, fails: with a text under the key that
  \<open>JSON.parse\<close> rejects, \<open>loadHistory\<close> and \<open>loadFavorites\<close> throw the SyntaxError
  (neither has a \<open>try\<close>), and the collection is not set.
\<close>

theorem load_corrupt_value_counterexample:
  "throws (loadHistory (home_initial corrupt_disk)) \<and>
   loadHistory (home_initial corrupt_disk) = Inl (SyntaxError, home_initial corrupt_disk) \<and>
   throws (loadFavorites (results_initial corrupt_disk)) \<and>
   loadFavorites (results_initial corrupt_disk) = Inl (SyntaxError, results_initial corrupt_disk)"
  by (simp add: throws_def loadHistory_def loadFavorites_def AsyncStorage_getItem_def
      home_initial_def results_initial_def corrupt_disk_def)

text \<open>
  C8, amended. When nothing is stored under the key, the load at mount does not throw
  and leaves the collection the empty list it was initialised to; when the text stored
  is the one written for a list, the collection becomes that list.
\<close>

theorem load_missing_key_keeps_empty:
  "(disk ''searchHistory'' = None \<longrightarrow>
      \<not> throws (loadHistory (home_initial disk)) \<and>
      history (not_awaited (loadHistory (home_initial disk))) = []) \<and>
   (disk ''favorites'' = None \<longrightarrow>
      \<not> throws (loadFavorites (results_initial disk)) \<and>
      favorites (not_awaited (loadFavorites (results_initial disk))) = []) \<and>
   (disk ''searchHistory'' = Some (JSON_stringify xs) \<longrightarrow>
      \<not> throws (loadHistory (home_initial disk)) \<and>
      history (not_awaited (loadHistory (home_initial disk))) = xs) \<and>
   (disk ''favorites'' = Some (JSON_stringify xs) \<longrightarrow>
      \<not> throws (loadFavorites (results_initial disk)) \<and>
      favorites (not_awaited (loadFavorites (results_initial disk))) = xs)"
  by (simp add: throws_def loadHistory_def loadFavorites_def AsyncStorage_getItem_def
      home_initial_def results_initial_def JSON_stringify_def home_setters results_setters)

theorem load_missing_key_keeps_empty_witness:
  "no_disk ''searchHistory'' = None \<and>
   \<not> throws (loadHistory (home_initial no_disk)) \<and>
   history (not_awaited (loadHistory (home_initial no_disk))) = [] \<and>
   no_disk ''favorites'' = None \<and>
   \<not> throws (loadFavorites (results_initial no_disk)) \<and>
   favorites (not_awaited (loadFavorites (results_initial no_disk))) = [] \<and>
   saved_disk ''searchHistory'' = Some (JSON_stringify [deva_ba, deva_a]) \<and>
   history (not_awaited (loadHistory (home_initial saved_disk))) = [deva_ba, deva_a] \<and>
   saved_disk ''favorites'' = Some (JSON_stringify [deva_ba, deva_a]) \<and>
   favorites (not_awaited (loadFavorites (results_initial saved_disk))) = [deva_ba, deva_a]"
proof -
  have n: "no_disk ''searchHistory'' = None" "no_disk ''favorites'' = None"
    by (simp_all add: no_disk_def)
  have s: "saved_disk ''searchHistory'' = Some (JSON_stringify [deva_ba, deva_a])"
    "saved_disk ''favorites'' = Some (JSON_stringify [deva_ba, deva_a])"
    by (simp_all add: saved_disk_def)
  show ?thesis
    using n s load_missing_key_keeps_empty [of no_disk "[]"]
      load_missing_key_keeps_empty [of saved_disk "[deva_ba, deva_a]"]
    by simp
qed

text \<open>
  C9. \<open>fetchSuggestions('')\<close>, whatever filter the render holds: it does not throw, it
  sets the suggestions to the empty list, and that setter call is all it does, so no
  request is sent.
\<close>

theorem fetchSuggestions_empty_input:
  "\<not> throws (fetchSuggestions server c [] st) \<and>
   suggestions (not_awaited (fetchSuggestions server c [] st)) = [] \<and>
   events (not_awaited (fetchSuggestions server c [] st)) = events st @ [Set_suggestions []] \<and>
   filter is_api_get (events (not_awaited (fetchSuggestions server c [] st))) =
     filter is_api_get (events st) \<and>
   isSearching (not_awaited (fetchSuggestions server c [] st)) = isSearching st"
  by (simp add: fetchSuggestions_def throws_def home_setters)

text \<open>
  C10. With the \<open>word\<close> parameter absent or empty, \<open>fetchResults\<close> returns the state it
  was given, having sent nothing. So on a results screen whose effect has run any number
  of times with such parameters, \<open>loading\<close> is still true as at mount, the results are
  empty, and no request has been sent.
\<close>

theorem fetchResults_without_word_keeps_loading:
  assumes "param_word p = None \<or> param_word p = Some []"
    and "\<forall>q \<in> set ps. param_word q = None \<or> param_word q = Some []"
  shows "fetchResults server p st = Inr st \<and>
         loading (results_effects server ps (results_initial disk)) = True \<and>
         results (results_effects server ps (results_initial disk)) = [] \<and>
         filter is_api_get (events (results_effects server ps (results_initial disk))) = []"
  using fetchResults_no_word [OF assms(1)] results_effects_no_word [OF assms(2)]
  by (simp add: results_initial_def)

theorem fetchResults_without_word_keeps_loading_witness:
  "param_word \<lparr>param_word = None, param_filter = None\<rparr> = None \<and>
   param_word \<lparr>param_word = Some [], param_filter = Some deva_pada\<rparr> = Some [] \<and>
   fetchResults server_down \<lparr>param_word = None, param_filter = None\<rparr> (results_initial no_disk) =
     Inr (results_initial no_disk) \<and>
   loading (results_effects server_down
      [\<lparr>param_word = None, param_filter = None\<rparr>,
       \<lparr>param_word = Some [], param_filter = Some deva_pada\<rparr>] (results_initial no_disk)) = True \<and>
   results (results_effects server_down
      [\<lparr>param_word = None, param_filter = None\<rparr>,
       \<lparr>param_word = Some [], param_filter = Some deva_pada\<rparr>] (results_initial no_disk)) = []"
proof -
  have p: "param_word \<lparr>param_word = None, param_filter = None\<rparr> = None \<or>
      param_word \<lparr>param_word = None, param_filter = None\<rparr> = Some []"
    by simp
  have ps: "\<forall>q \<in> set [\<lparr>param_word = None, param_filter = None\<rparr>,
        \<lparr>param_word = Some [], param_filter = Some deva_pada\<rparr>].
      param_word q = None \<or> param_word q = Some []"
    by simp
  show ?thesis
    using fetchResults_without_word_keeps_loading [OF p ps, of server_down "results_initial no_disk" no_disk]
    by simp
qed

end
